theory Spec2Isabelle
  imports Main "HOL-Library.Sublist"
begin

section \<open>Errors and call outcomes\<close>

text \<open>
  A Go \<open>error\<close> is an interface value with one method, \<open>Error()\<close>. Two dynamic kinds
  occur in the program: the value built by \<open>errors.New\<close> in the store, and the errors
  handed back by the JSON decoder and encoder of the standard library.
\<close>

datatype error = errors_New string | json_error string

fun error_Error :: "error \<Rightarrow> string" where
  "error_Error (errors_New s) = s"
| "error_Error (json_error s) = s"

text \<open>
  A call either returns, panics, or never returns because it waits for a mutex that is
  held. Each case carries the state the call leaves behind.
\<close>

datatype ('s, 'a) outcome = Returns 's 'a | Panics 's string | Blocks 's

section \<open>database/database.go\<close>

text \<open>
  \<open>sync.Mutex\<close>: \<open>Lock\<close> waits while the mutex is held (no result), \<open>Unlock\<close> releases it.
  The only \<open>Unlock\<close> of the program is the deferred one of \<open>Set\<close>, which runs after the
  \<open>Lock\<close> of the same call, so the runtime fault of unlocking a free mutex has no branch.
\<close>

datatype Mutex = Unlocked | Locked

definition Mutex_Lock :: "Mutex \<Rightarrow> Mutex option" where
  "Mutex_Lock m = (if m = Locked then None else Some Locked)"

definition Mutex_Unlock :: "Mutex \<Rightarrow> Mutex" where
  "Mutex_Unlock m = Unlocked"

text \<open>
  The struct. A Go map field is either nil (\<open>None\<close>) or an initialised map.
\<close>

record MapDatabase =
  hashtableMutex :: Mutex
  hashtable :: "(string \<rightharpoonup> string) option"

text \<open>
  The two-result map read \<open>v, ok := m[key]\<close>: a nil map reads as an empty one, and a
  missing key gives the zero value of the element type.
\<close>

definition mapaccess2 :: "(string \<rightharpoonup> string) option \<Rightarrow> string \<Rightarrow> string \<times> bool" where
  "mapaccess2 m key =
     (case m of
        None \<Rightarrow> ('''', False)
      | Some h \<Rightarrow> (case h key of None \<Rightarrow> ('''', False) | Some v \<Rightarrow> (v, True)))"

text \<open>
  The map write \<open>m[key] = value\<close>: it panics on a nil map.
\<close>

definition mapassign ::
  "(string \<rightharpoonup> string) option \<Rightarrow> string \<Rightarrow> string \<Rightarrow> string + (string \<rightharpoonup> string) option" where
  "mapassign m key val =
     (case m of
        None \<Rightarrow> Inl ''assignment to entry in nil map''
      | Some h \<Rightarrow> Inr (Some (h(key \<mapsto> val))))"

text \<open>
  \<open>func (db MapDatabase) Get(key string) (string, error)\<close>. The body reads the map and
  nothing else; it does not touch the mutex.
\<close>

definition MapDatabase_Get ::
  "MapDatabase \<Rightarrow> string \<Rightarrow> (MapDatabase, string \<times> error option) outcome" where
  "MapDatabase_Get db key =
     (let (v, ok) = mapaccess2 (hashtable db) key in
      if \<not> ok then Returns db ('''', Some (errors_New ''this value doesn't exist''))
      else Returns db (v, None))"

text \<open>
  \<open>func (db *MapDatabase) Set(key, value string) error\<close>: lock, defer the unlock, assign,
  return nil. The deferred unlock also runs when the assignment panics.
\<close>

definition MapDatabase_Set ::
  "MapDatabase \<Rightarrow> string \<Rightarrow> string \<Rightarrow> (MapDatabase, error option) outcome" where
  "MapDatabase_Set db key val =
     (case Mutex_Lock (hashtableMutex db) of
        None \<Rightarrow> Blocks db
      | Some m \<Rightarrow>
          (let db1 = db\<lparr>hashtableMutex := m\<rparr> in
           case mapassign (hashtable db1) key val of
             Inl msg \<Rightarrow> Panics (db1\<lparr>hashtableMutex := Mutex_Unlock (hashtableMutex db1)\<rparr>) msg
           | Inr h \<Rightarrow>
               (let db2 = db1\<lparr>hashtable := h\<rparr> in
                Returns (db2\<lparr>hashtableMutex := Mutex_Unlock (hashtableMutex db2)\<rparr>) None)))"

text \<open>
  \<open>func NewMapDatabase() MapDatabase\<close>: an empty, initialised map and the zero value of
  the mutex, which is unlocked.
\<close>

definition NewMapDatabase :: MapDatabase where
  "NewMapDatabase = \<lparr>hashtableMutex = Unlocked, hashtable = Some Map.empty\<rparr>"

text \<open>
  The \<open>Database\<close> interface: any state type with the two methods.
\<close>

record 's Database =
  Get :: "'s \<Rightarrow> string \<Rightarrow> ('s, string \<times> error option) outcome"
  Set :: "'s \<Rightarrow> string \<Rightarrow> string \<Rightarrow> ('s, error option) outcome"

definition MapDatabase_Database :: "MapDatabase Database" where
  "MapDatabase_Database = \<lparr>Get = MapDatabase_Get, Set = MapDatabase_Set\<rparr>"

section \<open>types.go\<close>

record Request =
  Op :: string
  Key :: string
  Value :: string

record Response =
  Error :: "error option"
  Status :: nat
  Value :: string

section \<open>The response writer\<close>

text \<open>
  The handlers talk to the \<open>http.ResponseWriter\<close> through two methods only. What a
  handler does to it is the sequence of these calls, in order.
\<close>

datatype writer_call = WriteHeader nat | Write string

section \<open>handlers.go\<close>

text \<open>
  \<open>json.Marshal\<close> belongs to the standard library: the handlers take the encoder as the
  parameter \<open>marshal\<close>, which gives the bytes or an error.
\<close>

definition handleGet ::
  "(Response \<Rightarrow> error + string) \<Rightarrow> 's Database \<Rightarrow> 's \<Rightarrow> Request
     \<Rightarrow> ('s, writer_call list) outcome" where
  "handleGet marshal db s reqBody =
     (case Get db s (Key reqBody) of
        Blocks s' \<Rightarrow> Blocks s'
      | Panics s' msg \<Rightarrow> Panics s' msg
      | Returns s' (val, err) \<Rightarrow>
          (let rsp = (if err \<noteq> None
                      then \<lparr>Error = err, Status = 500, Value = ''''\<rparr>
                      else \<lparr>Error = None, Status = 200, Value = val\<rparr>) in
           case marshal rsp of
             Inl e \<Rightarrow> Returns s' [WriteHeader 500, Write (error_Error e)]
           | Inr jsonBytes \<Rightarrow> Returns s' [Write jsonBytes]))"

definition handleSet ::
  "(Response \<Rightarrow> error + string) \<Rightarrow> 's Database \<Rightarrow> 's \<Rightarrow> Request
     \<Rightarrow> ('s, writer_call list) outcome" where
  "handleSet marshal db s reqBody =
     (case Set db s (Key reqBody) (Request.Value reqBody) of
        Blocks s' \<Rightarrow> Blocks s'
      | Panics s' msg \<Rightarrow> Panics s' msg
      | Returns s' (Some err) \<Rightarrow> Returns s' [WriteHeader 500, Write (error_Error err)]
      | Returns s' None \<Rightarrow>
          (let rsp = \<lparr>Error = None, Status = 200, Value = ''''\<rparr> in
           case marshal rsp of
             Inl e \<Rightarrow> Returns s' [WriteHeader 500, Write (error_Error e)]
           | Inr jsonBytes \<Rightarrow> Returns s' [Write jsonBytes]))"

section \<open>main.go\<close>

text \<open>
  The function registered by \<open>listen\<close>: decode the body, then switch on \<open>Op\<close>. The
  decoder of the standard library is the parameter \<open>decode\<close>.
\<close>

definition listen_handler ::
  "(string \<Rightarrow> error + Request) \<Rightarrow> (Response \<Rightarrow> error + string) \<Rightarrow> 's Database \<Rightarrow> 's
     \<Rightarrow> string \<Rightarrow> ('s, writer_call list) outcome" where
  "listen_handler decode marshal db s body =
     (case decode body of
        Inl err \<Rightarrow> Returns s [WriteHeader 400, Write (error_Error err)]
      | Inr reqBody \<Rightarrow>
          (if Op reqBody = ''GET'' then handleGet marshal db s reqBody
           else if Op reqBody = ''SET'' then handleSet marshal db s reqBody
           else Returns s [WriteHeader 500, Write (''Unrecognised op: '' @ Op reqBody)]))"

section \<open>encoding/json\<close>

text \<open>
  \<open>json.Marshal\<close> of the Go standard library, on the one type the handlers give it. It
  writes the exported fields of \<open>Response\<close> in the order of their declaration, under
  their Go names:
  \<^item> \<open>Error\<close> (an interface, tagged \<open>omitempty\<close>) is left out when nil; otherwise the value
    it holds is encoded as an object of its exported fields. The value built by
    \<open>errors.New\<close> has one field, the unexported message, so it is the empty object and
    the message is not written. How an error of the JSON package is encoded, and whether
    that succeeds, is the parameter \<open>encode_other\<close>;
  \<^item> \<open>Status\<close> (a \<open>uint\<close>) is written in decimal;
  \<^item> \<open>Value\<close> (a string, tagged \<open>omitempty\<close>) is left out when empty; otherwise it is
    written as a JSON string literal, whose escaping is the parameter \<open>quote\<close>.
\<close>

fun decimal :: "nat \<Rightarrow> string" where
  "decimal n =
     (if n < 10 then [''0123456789'' ! n]
      else decimal (n div 10) @ [''0123456789'' ! (n mod 10)])"

declare decimal.simps [simp del]

definition json_Marshal ::
  "(string \<Rightarrow> string) \<Rightarrow> (string \<Rightarrow> error + string) \<Rightarrow> Response \<Rightarrow> error + string" where
  \<open>json_Marshal quote encode_other rsp =
     (let status = ''"Status":'' @ decimal (Status rsp);
          val = (if Response.Value rsp = [] then []
                 else '',"Value":'' @ quote (Response.Value rsp))
      in case Error rsp of
           None \<Rightarrow> Inr (''{'' @ status @ val @ ''}'')
         | Some (errors_New s) \<Rightarrow> Inr (''{"Error":{},'' @ status @ val @ ''}'')
         | Some (json_error s) \<Rightarrow>
             (case encode_other s of
                Inl e \<Rightarrow> Inl e
              | Inr obj \<Rightarrow> Inr (''{"Error":'' @ obj @ '','' @ status @ val @ ''}'')))\<close>

section \<open>Calls in progress on a shared store\<close>

text \<open>
  The server runs every request in a goroutine of its own, all on one store. A call in
  progress is the point it has reached in the method body; one step runs the next
  statement of that body on the shared store. \<open>Set\<close> has three statements (lock, assign,
  deferred unlock), \<open>Get\<close> has one (the map read). A step gives nothing when the call
  waits for the mutex or is over.
\<close>

datatype call_state =
    Set_called string string
  | Set_holding string string
  | Set_assigned
  | Set_unwinding string
  | Set_returned "error option"
  | Set_panicked string
  | Get_called string
  | Get_returned "string \<times> error option"

fun step :: "MapDatabase \<Rightarrow> call_state \<Rightarrow> (MapDatabase \<times> call_state) option" where
  "step db (Set_called key val) =
     (case Mutex_Lock (hashtableMutex db) of
        None \<Rightarrow> None
      | Some m \<Rightarrow> Some (db\<lparr>hashtableMutex := m\<rparr>, Set_holding key val))"
| "step db (Set_holding key val) =
     (case mapassign (hashtable db) key val of
        Inl msg \<Rightarrow> Some (db, Set_unwinding msg)
      | Inr h \<Rightarrow> Some (db\<lparr>hashtable := h\<rparr>, Set_assigned))"
| "step db Set_assigned =
     Some (db\<lparr>hashtableMutex := Mutex_Unlock (hashtableMutex db)\<rparr>, Set_returned None)"
| "step db (Set_unwinding msg) =
     Some (db\<lparr>hashtableMutex := Mutex_Unlock (hashtableMutex db)\<rparr>, Set_panicked msg)"
| "step db (Get_called key) =
     (let (v, ok) = mapaccess2 (hashtable db) key in
      if \<not> ok then Some (db, Get_returned ('''', Some (errors_New ''this value doesn't exist'')))
      else Some (db, Get_returned (v, None)))"
| "step db (Set_returned e) = None"
| "step db (Set_panicked msg) = None"
| "step db (Get_returned r) = None"

text \<open>
  A call is inside the critical section of \<open>Set\<close> from the lock to the deferred unlock.
\<close>

fun in_critical_section :: "call_state \<Rightarrow> bool" where
  "in_critical_section (Set_holding key val) = True"
| "in_critical_section Set_assigned = True"
| "in_critical_section (Set_unwinding msg) = True"
| "in_critical_section c = False"

text \<open>
  A schedule names, step by step, the call that runs next. It cannot be followed when it
  names a call that waits, is over, or is not there.
\<close>

fun run :: "nat list \<Rightarrow> MapDatabase \<times> call_state list \<Rightarrow> (MapDatabase \<times> call_state list) option" where
  "run [] st = Some st"
| "run (i # sched) (db, calls) =
     (if i < length calls
      then (case step db (calls ! i) of
              None \<Rightarrow> None
            | Some (db', c) \<Rightarrow> run sched (db', calls[i := c]))
      else None)"

section \<open>Vocabulary of the properties\<close>

text \<open>
  A key is in the store when the map is initialised and has an entry for it.
\<close>

definition has_key :: "MapDatabase \<Rightarrow> string \<Rightarrow> bool" where
  "has_key db key = (case hashtable db of None \<Rightarrow> False | Some h \<Rightarrow> h key \<noteq> None)"

text \<open>
  A store between two calls, as \<open>NewMapDatabase\<close> builds it: the map is initialised and
  nobody holds the mutex.
\<close>

definition usable :: "MapDatabase \<Rightarrow> bool" where
  "usable db = (hashtable db \<noteq> None \<and> hashtableMutex db = Unlocked)"

section \<open>Basic facts about the store\<close>

lemma Set_on_usable:
  assumes "hashtableMutex db = Unlocked" and "hashtable db = Some h"
  shows "MapDatabase_Set db key val = Returns (db\<lparr>hashtable := Some (h(key \<mapsto> val))\<rparr>) None"
  using assms by (simp add: MapDatabase_Set_def Mutex_Lock_def Mutex_Unlock_def mapassign_def)

lemma Get_found:
  assumes "hashtable db = Some h" and "h key = Some v"
  shows "MapDatabase_Get db key = Returns db (v, None)"
  using assms by (simp add: MapDatabase_Get_def mapaccess2_def)

lemma Get_missing:
  assumes "\<not> has_key db key"
  shows "MapDatabase_Get db key = Returns db ('''', Some (errors_New ''this value doesn't exist''))"
  using assms by (auto simp add: MapDatabase_Get_def mapaccess2_def has_key_def split: option.splits)

lemma Get_present:
  assumes "has_key db key"
  shows "\<exists>v. MapDatabase_Get db key = Returns db (v, None)"
  using assms by (auto simp add: MapDatabase_Get_def mapaccess2_def has_key_def split: option.splits)

lemma usable_NewMapDatabase: "usable NewMapDatabase"
  by (simp add: usable_def NewMapDatabase_def)

text \<open>
  The three statements of \<open>Set\<close>, run one after the other with no other call in between,
  are the method as a whole.
\<close>

lemma Set_steps_return:
  assumes "MapDatabase_Set db key val = Returns db' e"
  shows "run [0, 0, 0] (db, [Set_called key val]) = Some (db', [Set_returned e])"
  using assms
  by (auto simp add: MapDatabase_Set_def Mutex_Lock_def Mutex_Unlock_def mapassign_def Let_def
      split: option.splits sum.splits if_splits)

lemma Get_step_return:
  assumes "MapDatabase_Get db key = Returns db' r"
  shows "run [0] (db, [Get_called key]) = Some (db', [Get_returned r])"
  using assms
  by (auto simp add: MapDatabase_Get_def Let_def split: prod.splits if_splits)

text \<open>
  A decoded request with op \<open>GET\<close> whose key is not in the store, for any encoder: the
  handler gives the encoder the response with status 500, the error of the store and an
  empty value, and writes the bytes it gets back.
\<close>

lemma listen_handler_get_missing:
  assumes "decode body = Inr req" and "Op req = ''GET''" and "\<not> has_key db (Key req)"
  shows "listen_handler decode marshal MapDatabase_Database db body =
           (case marshal \<lparr>Error = Some (errors_New ''this value doesn't exist''),
                          Status = 500, Value = ''''\<rparr> of
              Inl e \<Rightarrow> Returns db [WriteHeader 500, Write (error_Error e)]
            | Inr jsonBytes \<Rightarrow> Returns db [Write jsonBytes])"
  using assms Get_missing [OF assms(3)]
  by (simp add: listen_handler_def handleGet_def MapDatabase_Database_def)

lemma decimal_500: "decimal 500 = ''500''"
  by (simp add: decimal.simps [of 500] decimal.simps [of 50] decimal.simps [of 5])

lemma message_not_in_error_bytes:
  \<open>\<not> sublist ''this value doesn't exist'' ''{"Error":{},"Status":500}''\<close>
proof
  assume \<open>sublist ''this value doesn't exist'' ''{"Error":{},"Status":500}''\<close>
  then have \<open>set ''this value doesn't exist'' \<subseteq> set ''{"Error":{},"Status":500}''\<close>
    by (rule set_mono_sublist)
  then show False by simp
qed

section \<open>The properties\<close>

text \<open>
  C1. For every key and every value, the empty string included, a \<open>Set\<close> on a usable
  store returns with no error, and the \<open>Get\<close> of the same key that follows returns the
  value that was set, with no error.
\<close>

theorem set_then_get:
  assumes "usable db"
  shows "\<exists>db'. MapDatabase_Set db k v = Returns db' None
               \<and> MapDatabase_Get db' k = Returns db' (v, None)"
proof -
  from assms obtain h where h: "hashtable db = Some h" and m: "hashtableMutex db = Unlocked"
    by (auto simp add: usable_def)
  let ?db' = "db\<lparr>hashtable := Some (h(k \<mapsto> v))\<rparr>"
  have "MapDatabase_Set db k v = Returns ?db' None"
    using m h by (rule Set_on_usable)
  moreover have "MapDatabase_Get ?db' k = Returns ?db' (v, None)"
    by (rule Get_found [where h = "h(k \<mapsto> v)"]) simp_all
  ultimately show ?thesis by blast
qed

theorem set_then_get_witness:
  "usable NewMapDatabase
   \<and> (\<exists>db'. MapDatabase_Set NewMapDatabase [] [] = Returns db' None
             \<and> MapDatabase_Get db' [] = Returns db' ([], None))"
  using set_then_get [OF usable_NewMapDatabase, of "[]" "[]"] usable_NewMapDatabase by simp

text \<open>
  C2. A decoded request with op \<open>GET\<close> whose key is not in the store does not emit the
  error text. The response the handler builds has status 500, the error of message
  \<open>this value doesn't exist\<close> and an empty value, but the bytes written for it are
  \<open>{"Error":{},"Status":500}\<close>: the status 500 is there, the value field is left out,
  and the error field is the empty object. The message occurs nowhere in the bytes
  written. There is one \<open>Write\<close> and no \<open>WriteHeader\<close>, and the store is left as it was.
\<close>

theorem get_missing_emits_empty_error_object:
  assumes "decode body = Inr req" and "Op req = ''GET''" and "\<not> has_key db (Key req)"
  shows \<open>listen_handler decode (json_Marshal quote encode_other) MapDatabase_Database db body
           = Returns db [Write ''{"Error":{},"Status":500}'']
         \<and> \<not> sublist ''this value doesn't exist'' ''{"Error":{},"Status":500}''\<close>
  using assms message_not_in_error_bytes
    listen_handler_get_missing [where marshal = "json_Marshal quote encode_other"
      and decode = decode and body = body and req = req and db = db]
  by (simp add: json_Marshal_def decimal_500)

theorem get_missing_emits_empty_error_object_witness:
  \<open>listen_handler (\<lambda>b. Inr \<lparr>Op = ''GET'', Key = ''missing'', Value = ''''\<rparr>)
       (json_Marshal (\<lambda>s. s) (\<lambda>s. Inr ''{}'')) MapDatabase_Database NewMapDatabase ''body''
     = Returns NewMapDatabase [Write ''{"Error":{},"Status":500}'']\<close>
  using get_missing_emits_empty_error_object
    [of "\<lambda>b. Inr \<lparr>Op = ''GET'', Key = ''missing'', Value = ''''\<rparr>" "''body''"
      "\<lparr>Op = ''GET'', Key = ''missing'', Value = ''''\<rparr>" NewMapDatabase
      "\<lambda>s. s" "\<lambda>s. Inr ''{}''"]
  by (simp add: has_key_def NewMapDatabase_def)

text \<open>
  C3. \<open>Get\<close> always returns; its error is set exactly when the key is not in the store;
  that error is always the one value built by \<open>errors.New\<close> with the message
  \<open>this value doesn't exist\<close>, it comes with the empty string, it is never an error of
  the JSON kind, and \<open>Set\<close> never returns an error at all, so no other error comes out
  of the store.
\<close>

theorem get_error_iff_absent:
  "\<exists>v err. MapDatabase_Get db k = Returns db (v, err)
      \<and> (err \<noteq> None \<longleftrightarrow> \<not> has_key db k)
      \<and> (err \<noteq> None \<longrightarrow> v = '''' \<and> err = Some (errors_New ''this value doesn't exist''))
      \<and> (\<forall>msg. err \<noteq> Some (json_error msg))
      \<and> (\<forall>val db' e. MapDatabase_Set db k val \<noteq> Returns db' (Some e))"
proof -
  have noerr: "\<forall>val db' e. MapDatabase_Set db k val \<noteq> Returns db' (Some e)"
    by (simp add: MapDatabase_Set_def Let_def split: option.splits sum.splits)
  show ?thesis
  proof (cases "has_key db k")
    case True
    then obtain v where "MapDatabase_Get db k = Returns db (v, None)"
      using Get_present by blast
    with True noerr show ?thesis by simp
  next
    case False
    then have "MapDatabase_Get db k = Returns db ('''', Some (errors_New ''this value doesn't exist''))"
      by (rule Get_missing)
    with False noerr show ?thesis by simp
  qed
qed

theorem get_error_iff_absent_witness:
  "MapDatabase_Get NewMapDatabase ''missing''
     = Returns NewMapDatabase ('''', Some (errors_New ''this value doesn't exist''))
   \<and> \<not> has_key NewMapDatabase ''missing''"
  using get_error_iff_absent [of NewMapDatabase "''missing''"]
  by (auto simp add: has_key_def NewMapDatabase_def)

text \<open>
  C4. Exclusive access of \<open>Set\<close> against \<open>Get\<close> does not hold in the code. On a new
  store, with a \<open>Set\<close> and a \<open>Get\<close> of the same key in progress, the schedule "Set
  locks, then Get runs" can be followed: the \<open>Get\<close> reads the map and returns while the
  \<open>Set\<close> is inside its critical section and holds the mutex. With a second \<open>Set\<close> in
  the place of the \<open>Get\<close> the same schedule cannot be followed: the second \<open>Set\<close>
  waits for the mutex.
\<close>

theorem get_runs_inside_set_critical_section:
  "run [0, 1] (NewMapDatabase, [Set_called ''k'' ''v'', Get_called ''k''])
     = Some (NewMapDatabase\<lparr>hashtableMutex := Locked\<rparr>,
             [Set_holding ''k'' ''v'',
              Get_returned ('''', Some (errors_New ''this value doesn't exist''))])
   \<and> in_critical_section (Set_holding ''k'' ''v'')
   \<and> run [0, 1] (NewMapDatabase, [Set_called ''k'' ''v'', Set_called ''k'' ''w'']) = None"
  by (simp add: NewMapDatabase_def Mutex_Lock_def mapaccess2_def)

text \<open>
  C5. A decoded request whose op is neither \<open>GET\<close> nor \<open>SET\<close>: whatever the
  implementation of the \<open>Database\<close> interface and whatever its state, the handler returns
  with the state as it was, after \<open>WriteHeader(500)\<close> and one \<open>Write\<close> of the text
  \<open>Unrecognised op: \<close> followed by the op. The result does not depend on the two methods
  of the store, so neither of them is called.
\<close>

theorem unrecognised_op:
  assumes "decode body = Inr req" and "Op req \<noteq> ''GET''" and "Op req \<noteq> ''SET''"
  shows "listen_handler decode marshal db s body
           = Returns s [WriteHeader 500, Write (''Unrecognised op: '' @ Op req)]"
  using assms by (simp add: listen_handler_def)

theorem unrecognised_op_witness:
  "listen_handler (\<lambda>b. Inr \<lparr>Op = ''DELETE'', Key = ''foo'', Value = ''''\<rparr>) (\<lambda>r. Inr ''{}'')
       \<lparr>Get = (\<lambda>s key. Panics s ''Get called''), Set = (\<lambda>s key val. Panics s ''Set called'')\<rparr>
       (0::nat) ''body''
     = Returns 0 [WriteHeader 500, Write ''Unrecognised op: DELETE'']"
  using unrecognised_op [of "\<lambda>b. Inr \<lparr>Op = ''DELETE'', Key = ''foo'', Value = ''''\<rparr>" "''body''"
      "\<lparr>Op = ''DELETE'', Key = ''foo'', Value = ''''\<rparr>" "\<lambda>r. Inr ''{}''"
      "\<lparr>Get = (\<lambda>s key. Panics s ''Get called''), Set = (\<lambda>s key val. Panics s ''Set called'')\<rparr>"
      "0::nat"]
  by simp

text \<open>
  C6. \<open>Set\<close> never returns an error that is not nil, on any store; on a usable store it
  returns, with a nil error, for every key and value; and \<open>handleSet\<close> then gives the
  encoder the response with status 200, no error and an empty value, and writes the
  encoder's bytes.
\<close>

theorem set_always_succeeds:
  assumes "usable db"
  shows "(\<forall>s s' e. MapDatabase_Set s k v \<noteq> Returns s' (Some e))
         \<and> (\<exists>db'. MapDatabase_Set db k v = Returns db' None
               \<and> handleSet marshal MapDatabase_Database db \<lparr>Op = op, Key = k, Value = v\<rparr>
                   = (case marshal \<lparr>Error = None, Status = 200, Value = ''''\<rparr> of
                        Inl e \<Rightarrow> Returns db' [WriteHeader 500, Write (error_Error e)]
                      | Inr jsonBytes \<Rightarrow> Returns db' [Write jsonBytes]))"
proof -
  have never: "\<forall>s s' e. MapDatabase_Set s k v \<noteq> Returns s' (Some e)"
    by (simp add: MapDatabase_Set_def Let_def split: option.splits sum.splits)
  from assms obtain h where h: "hashtable db = Some h" and m: "hashtableMutex db = Unlocked"
    by (auto simp add: usable_def)
  have "MapDatabase_Set db k v = Returns (db\<lparr>hashtable := Some (h(k \<mapsto> v))\<rparr>) None"
    using m h by (rule Set_on_usable)
  then have "\<exists>db'. MapDatabase_Set db k v = Returns db' None
               \<and> handleSet marshal MapDatabase_Database db \<lparr>Op = op, Key = k, Value = v\<rparr>
                   = (case marshal \<lparr>Error = None, Status = 200, Value = ''''\<rparr> of
                        Inl e \<Rightarrow> Returns db' [WriteHeader 500, Write (error_Error e)]
                      | Inr jsonBytes \<Rightarrow> Returns db' [Write jsonBytes])"
    by (simp add: handleSet_def MapDatabase_Database_def)
  with never show ?thesis by blast
qed

theorem set_always_succeeds_witness:
  "\<exists>db'. MapDatabase_Set NewMapDatabase ''foo'' ''bar'' = Returns db' None
         \<and> handleSet (\<lambda>r. if Status r = 200 \<and> Response.Value r = '''' \<and> Error r = None
                           then Inr ''ok response'' else Inr ''other'')
             MapDatabase_Database NewMapDatabase \<lparr>Op = ''SET'', Key = ''foo'', Value = ''bar''\<rparr>
             = Returns db' [Write ''ok response'']"
  using set_always_succeeds [OF usable_NewMapDatabase, of "''foo''" "''bar''"
      "\<lambda>r. if Status r = 200 \<and> Response.Value r = '''' \<and> Error r = None
           then Inr ''ok response'' else Inr ''other''" "''SET''"]
  by simp

text \<open>
  C7. On a usable store, \<open>Set(k, v1)\<close>, then \<open>Set(k, v2)\<close>, then \<open>Get(k)\<close>: both
  \<open>Set\<close> calls return with no error and the \<open>Get\<close> returns \<open>v2\<close> with no error.
\<close>

theorem last_write_wins:
  assumes "usable db"
  shows "\<exists>db1 db2. MapDatabase_Set db k v1 = Returns db1 None
           \<and> MapDatabase_Set db1 k v2 = Returns db2 None
           \<and> MapDatabase_Get db2 k = Returns db2 (v2, None)"
proof -
  from assms obtain h where h: "hashtable db = Some h" and m: "hashtableMutex db = Unlocked"
    by (auto simp add: usable_def)
  let ?db1 = "db\<lparr>hashtable := Some (h(k \<mapsto> v1))\<rparr>"
  let ?db2 = "?db1\<lparr>hashtable := Some ((h(k \<mapsto> v1))(k \<mapsto> v2))\<rparr>"
  have "MapDatabase_Set db k v1 = Returns ?db1 None"
    using m h by (rule Set_on_usable)
  moreover have "MapDatabase_Set ?db1 k v2 = Returns ?db2 None"
    by (rule Set_on_usable) (simp_all add: m)
  moreover have "MapDatabase_Get ?db2 k = Returns ?db2 (v2, None)"
    by (rule Get_found [where h = "(h(k \<mapsto> v1))(k \<mapsto> v2)"]) simp_all
  ultimately show ?thesis by blast
qed

theorem last_write_wins_witness:
  "\<exists>db1 db2. MapDatabase_Set NewMapDatabase ''k'' ''v1'' = Returns db1 None
           \<and> MapDatabase_Set db1 ''k'' ''v2'' = Returns db2 None
           \<and> MapDatabase_Get db2 ''k'' = Returns db2 (''v2'', None)"
  using last_write_wins [OF usable_NewMapDatabase, of "''k''" "''v1''" "''v2''"] by simp

text \<open>
  C8. \<open>Get\<close> returns and leaves the whole store (map and mutex) as it was, for every
  store and key, also when the key is absent and the error comes back. The same holds one
  level up: \<open>handleGet\<close> leaves the store as it was, and so does the registered handler
  for every body that does not decode to a \<open>SET\<close> request (a malformed body, an
  unrecognised op, a \<open>GET\<close> of a missing key).
\<close>

theorem get_is_pure_read:
  "(\<exists>r. MapDatabase_Get db k = Returns db r)
   \<and> (\<not> has_key db k \<longrightarrow>
        MapDatabase_Get db k = Returns db ('''', Some (errors_New ''this value doesn't exist'')))
   \<and> (\<exists>calls. handleGet marshal MapDatabase_Database db req = Returns db calls)
   \<and> ((\<forall>r. decode body = Inr r \<longrightarrow> Op r \<noteq> ''SET'') \<longrightarrow>
        (\<exists>calls. listen_handler decode marshal MapDatabase_Database db body = Returns db calls))"
proof -
  have a: "\<exists>r. MapDatabase_Get db k = Returns db r" for k
    by (simp add: MapDatabase_Get_def Let_def split: prod.splits)
  have b: "\<exists>calls. handleGet marshal MapDatabase_Database db req = Returns db calls" for req
  proof -
    obtain r where r: "MapDatabase_Get db (Key req) = Returns db r" using a by blast
    then show ?thesis
      by (cases r) (simp add: handleGet_def MapDatabase_Database_def Let_def split: sum.splits)
  qed
  have c: "\<exists>calls. listen_handler decode marshal MapDatabase_Database db body = Returns db calls"
    if notset: "\<forall>r. decode body = Inr r \<longrightarrow> Op r \<noteq> ''SET''"
  proof (cases "decode body")
    case (Inl e)
    then show ?thesis by (simp add: listen_handler_def)
  next
    case (Inr r)
    with notset have "Op r \<noteq> ''SET''" by blast
    with Inr b [of r] show ?thesis by (simp add: listen_handler_def)
  qed
  from a b c Get_missing show ?thesis by blast
qed

theorem get_is_pure_read_witness:
  "MapDatabase_Get NewMapDatabase ''baz''
     = Returns NewMapDatabase ('''', Some (errors_New ''this value doesn't exist''))"
  using get_is_pure_read [of NewMapDatabase "''baz''"]
  by (simp add: has_key_def NewMapDatabase_def)

text \<open>
  C9. The store built by \<open>NewMapDatabase\<close> is usable (its map is initialised, its
  mutex free). On a usable store every \<open>Set\<close> returns with no error (it does not reach the
  panic of an assignment to a nil map) and leaves a usable store, and every \<open>Get\<close>
  returns and leaves the store as it was.
\<close>

theorem map_stays_initialised:
  "usable NewMapDatabase
   \<and> (usable db \<longrightarrow>
        (\<exists>db'. MapDatabase_Set db k v = Returns db' None \<and> usable db')
        \<and> (\<exists>r. MapDatabase_Get db k = Returns db r))"
proof -
  have "\<exists>db'. MapDatabase_Set db k v = Returns db' None \<and> usable db'" if u: "usable db"
  proof -
    from u obtain h where h: "hashtable db = Some h" and m: "hashtableMutex db = Unlocked"
      by (auto simp add: usable_def)
    have "MapDatabase_Set db k v = Returns (db\<lparr>hashtable := Some (h(k \<mapsto> v))\<rparr>) None"
      using m h by (rule Set_on_usable)
    moreover have "usable (db\<lparr>hashtable := Some (h(k \<mapsto> v))\<rparr>)"
      using m by (simp add: usable_def)
    ultimately show ?thesis by blast
  qed
  moreover have "\<exists>r. MapDatabase_Get db k = Returns db r"
    by (simp add: MapDatabase_Get_def Let_def split: prod.splits)
  ultimately show ?thesis using usable_NewMapDatabase by blast
qed

theorem map_stays_initialised_witness:
  "\<exists>db'. MapDatabase_Set NewMapDatabase ''foo'' ''bar'' = Returns db' None \<and> usable db'"
  using map_stays_initialised [of NewMapDatabase "''foo''" "''bar''"] by simp

text \<open>
  C10. On a usable store, for two distinct keys \<open>k\<close> and \<open>k'\<close>: \<open>Set(k, v)\<close> returns,
  and \<open>Get(k')\<close> returns the same pair (value and error) before and after it.
\<close>

theorem set_leaves_other_keys:
  assumes "usable db" and "k \<noteq> k'"
  shows "\<exists>db' r. MapDatabase_Set db k v = Returns db' None
           \<and> MapDatabase_Get db k' = Returns db r
           \<and> MapDatabase_Get db' k' = Returns db' r"
proof -
  from assms obtain h where h: "hashtable db = Some h" and m: "hashtableMutex db = Unlocked"
    by (auto simp add: usable_def)
  have "MapDatabase_Set db k v = Returns (db\<lparr>hashtable := Some (h(k \<mapsto> v))\<rparr>) None"
    using m h by (rule Set_on_usable)
  then show ?thesis using h assms(2)
    by (simp add: MapDatabase_Get_def mapaccess2_def Let_def split: option.splits)
qed

theorem set_leaves_other_keys_witness:
  "\<exists>db' r. MapDatabase_Set NewMapDatabase ''foo'' ''bar'' = Returns db' None
           \<and> MapDatabase_Get NewMapDatabase ''baz'' = Returns NewMapDatabase r
           \<and> MapDatabase_Get db' ''baz'' = Returns db' r"
  using set_leaves_other_keys [OF usable_NewMapDatabase, of "''foo''" "''baz''" "''bar''"] by simp

end
